theory Spec2Isabelle
  imports Main
begin

section \<open>JavaScript objects used as dictionaries\<close>

text \<open>
  The route handler of \<^verbatim>\<open>src/server/routes/mcpServers.ts\<close> keeps its state in two
  plain JavaScript objects, \<^verbatim>\<open>config.enabled\<close> and \<^verbatim>\<open>config.custom\<close>, and reads the
  built-in registry from a third. An object is modelled by the list of its own
  properties in enumeration order (the order of \<^verbatim>\<open>Object.keys\<close>, \<^verbatim>\<open>Object.entries\<close>
  and \<^verbatim>\<open>JSON.stringify\<close>). Strings are ASCII strings.

  A property read \<^verbatim>\<open>obj[k]\<close> first looks at the own properties and then at
  \<^verbatim>\<open>Object.prototype\<close>, which every object made by \<^verbatim>\<open>JSON.parse\<close> or by an object
  literal inherits from. The inherited values are functions, and for the key
  \<^verbatim>\<open>__proto__\<close> the prototype object itself: all of them are truthy, none is nullish,
  none is a boolean and none has a property \<^verbatim>\<open>type\<close>. The model keeps them apart
  from the values stored in the object as \<open>ProtoVal\<close>.
\<close>

type_synonym 'v js_obj = "(string \<times> 'v) list"

datatype 'v js_val = Undefined | Val 'v | ProtoVal

definition object_prototype_keys :: "string list" where
  "object_prototype_keys =
     [''constructor'', ''__defineGetter__'', ''__defineSetter__'', ''hasOwnProperty'',
      ''__lookupGetter__'', ''__lookupSetter__'', ''isPrototypeOf'',
      ''propertyIsEnumerable'', ''toString'', ''valueOf'', ''__proto__'',
      ''toLocaleString'']"

definition obj_get :: "'v js_obj \<Rightarrow> string \<Rightarrow> 'v js_val" where
  "obj_get obj k =
     (case map_of obj k of
        Some v \<Rightarrow> Val v
      | None \<Rightarrow> if k \<in> set object_prototype_keys then ProtoVal else Undefined)"

text \<open>
  Enumeration order: the keys that are array indices (canonical decimal numerals
  below \<open>2\<^sup>3\<^sup>2 - 1\<close>) come first in ascending numeric order, the other keys follow in
  the order of their creation.
\<close>

definition is_digit :: "char \<Rightarrow> bool" where
  "is_digit c = (c \<in> set ''0123456789'')"

definition digit_val :: "char \<Rightarrow> int" where
  "digit_val c = of_char c - 48"

definition index_val :: "string \<Rightarrow> int" where
  "index_val k = foldl (\<lambda>n c. 10 * n + digit_val c) 0 k"

definition is_array_index :: "string \<Rightarrow> bool" where
  "is_array_index k =
     (case k of
        [] \<Rightarrow> False
      | c # cs \<Rightarrow> list_all is_digit k \<and> (if c = CHR ''0'' then cs = [] else True)
                 \<and> index_val k < 4294967295)"

fun insert_index :: "string \<Rightarrow> 'v \<Rightarrow> 'v js_obj \<Rightarrow> 'v js_obj" where
  "insert_index k v [] = [(k, v)]"
| "insert_index k v (p # ps) =
     (if is_array_index (fst p) \<and> index_val (fst p) < index_val k
      then p # insert_index k v ps
      else (k, v) # p # ps)"

text \<open>
  The assignment \<^verbatim>\<open>obj[k] = v\<close>. An own property is overwritten in place. A new key
  becomes an own property, except \<^verbatim>\<open>__proto__\<close>: that assignment runs the setter
  inherited from \<^verbatim>\<open>Object.prototype\<close>, which creates no own property (it ignores a
  value that is not an object, and replaces the prototype otherwise).
\<close>

definition proto_key :: string where
  "proto_key = ''__proto__''"

definition obj_set :: "'v js_obj \<Rightarrow> string \<Rightarrow> 'v \<Rightarrow> 'v js_obj" where
  "obj_set obj k v =
     (if k \<in> fst ` set obj then map (\<lambda>p. if fst p = k then (k, v) else p) obj
      else if k = proto_key then obj
      else if is_array_index k then insert_index k v obj
      else obj @ [(k, v)])"

text \<open>The statement \<^verbatim>\<open>delete obj[k]\<close> removes an own property and nothing else.\<close>

definition obj_delete :: "'v js_obj \<Rightarrow> string \<Rightarrow> 'v js_obj" where
  "obj_delete obj k = filter (\<lambda>p. fst p \<noteq> k) obj"

text \<open>Truthiness (\<^verbatim>\<open>!x\<close>, \<^verbatim>\<open>x || y\<close>) and nullish coalescing (\<^verbatim>\<open>x ?? y\<close>).\<close>

fun truthy_bool :: "bool js_val \<Rightarrow> bool" where
  "truthy_bool Undefined = False"
| "truthy_bool (Val b) = b"
| "truthy_bool ProtoVal = True"

fun truthy_obj :: "'v js_val \<Rightarrow> bool" where
  "truthy_obj Undefined = False"
| "truthy_obj (Val v) = True"
| "truthy_obj ProtoVal = True"

fun falsy_str :: "string option \<Rightarrow> bool" where
  "falsy_str None = True"
| "falsy_str (Some s) = (s = [])"

fun nullish_or :: "'v js_val \<Rightarrow> 'v \<Rightarrow> 'v js_val" where
  "nullish_or Undefined d = Val d"
| "nullish_or (Val v) d = Val v"
| "nullish_or ProtoVal d = ProtoVal"

fun or_obj :: "'v js_val \<Rightarrow> 'v js_val \<Rightarrow> 'v js_val" where
  "or_obj Undefined y = y"
| "or_obj (Val v) y = Val v"
| "or_obj ProtoVal y = ProtoVal"

section \<open>Data model\<close>

text \<open>
  The two interfaces \<^verbatim>\<open>MCPHttpServerConfig\<close> and \<^verbatim>\<open>MCPStdioServerConfig\<close> and their
  union. The stdio interface declares \<^verbatim>\<open>command\<close> a required string, but Create can
  store a stdio record whose \<^verbatim>\<open>command\<close> is \<^verbatim>\<open>undefined\<close> (see \<open>new_record\<close> below), and
  \<^verbatim>\<open>JSON.stringify\<close> then leaves the property out; so the field is optional here.
\<close>

datatype server_type = http | stdio

datatype MCPServerConfig =
    MCPHttpServerConfig
      (name: "string option") (url: string) (headers: "string js_obj option")
  | MCPStdioServerConfig
      (name: "string option") (command: "string option") (args: "string list option")
      (env: "string js_obj option")

fun type_of :: "MCPServerConfig \<Rightarrow> server_type" where
  "type_of (MCPHttpServerConfig n u h) = http"
| "type_of (MCPStdioServerConfig n c a e) = stdio"

record MCPServersConfig =
  enabled :: "bool js_obj"
  custom :: "MCPServerConfig js_obj"

text \<open>
  The built-in registry \<^verbatim>\<open>MCP_SERVERS_BY_PROVIDER['anthropic']\<close> is imported from a
  module outside this file; it is a parameter \<open>anthropic\<close> of every function that
  reads it, \<open>None\<close> when the provider has no entry. Its records are read as
  \<^verbatim>\<open>MCPServerConfig\<close> records (the listing takes \<^verbatim>\<open>type\<close>, \<^verbatim>\<open>url\<close>, \<^verbatim>\<open>command\<close> and
  \<^verbatim>\<open>args\<close> from them). The definition below is \<^verbatim>\<open>MCP_SERVERS_BY_PROVIDER['anthropic'] || {}\<close>.
\<close>

definition builtinServers :: "MCPServerConfig js_obj option \<Rightarrow> MCPServerConfig js_obj" where
  "builtinServers anthropic = (case anthropic of None \<Rightarrow> [] | Some servers \<Rightarrow> servers)"

section \<open>ConfigStore\<close>

text \<open>
  What reading \<^verbatim>\<open>.claude/mcp-servers.json\<close> can find: no file, a file that cannot be
  read, text that \<^verbatim>\<open>JSON.parse\<close> rejects, or an overlay record (\<open>loadMCPConfig\<close> casts
  what it has parsed to \<^verbatim>\<open>MCPServersConfig\<close>; a file that parses is taken to have that
  type). Writing the file either succeeds, and the file then holds the record
  written, or throws, and the file is as it was.
\<close>

datatype file_content = Missing | Unreadable | Unparseable | Json MCPServersConfig

record fs_state =
  overlay_file :: file_content
  writable :: bool

definition default_config :: "MCPServerConfig js_obj option \<Rightarrow> MCPServersConfig" where
  "default_config anthropic =
     \<lparr>enabled = fold (\<lambda>key en. obj_set en key True) (map fst (builtinServers anthropic)) [],
      custom = []\<rparr>"

definition loadMCPConfig :: "MCPServerConfig js_obj option \<Rightarrow> file_content \<Rightarrow> MCPServersConfig" where
  "loadMCPConfig anthropic f =
     (case f of Json config \<Rightarrow> config | _ \<Rightarrow> default_config anthropic)"

definition saveMCPConfig :: "MCPServersConfig \<Rightarrow> fs_state \<Rightarrow> fs_state option" where
  "saveMCPConfig config st = (if writable st then Some (st\<lparr>overlay_file := Json config\<rparr>) else None)"

section \<open>Registry merge\<close>

record server_descriptor =
  d_id :: string
  d_name :: string
  d_type :: server_type
  d_url :: "string option"
  d_command :: "string option"
  d_args :: "string list option"
  d_enabled :: "bool js_val"
  d_builtin :: bool

definition toUpperCase_char :: "char \<Rightarrow> char" where
  "toUpperCase_char c =
     (case map_of (zip ''abcdefghijklmnopqrstuvwxyz'' ''ABCDEFGHIJKLMNOPQRSTUVWXYZ'') c of
        Some u \<Rightarrow> u
      | None \<Rightarrow> c)"

definition toUpperCase :: "string \<Rightarrow> string" where
  "toUpperCase s = map toUpperCase_char s"

definition replace_hyphens :: "string \<Rightarrow> string" where
  "replace_hyphens s = map (\<lambda>c. if c = CHR ''-'' then CHR '' '' else c) s"

definition builtin_name :: "string \<Rightarrow> string" where
  "builtin_name i = toUpperCase (take 1 i) @ replace_hyphens (drop 1 i)"

fun url_of :: "MCPServerConfig \<Rightarrow> string option" where
  "url_of (MCPHttpServerConfig n u h) = Some u"
| "url_of (MCPStdioServerConfig n c a e) = None"

fun command_of :: "MCPServerConfig \<Rightarrow> string option" where
  "command_of (MCPHttpServerConfig n u h) = None"
| "command_of (MCPStdioServerConfig n c a e) = c"

fun args_of :: "MCPServerConfig \<Rightarrow> string list option" where
  "args_of (MCPHttpServerConfig n u h) = None"
| "args_of (MCPStdioServerConfig n c a e) = a"

definition builtin_descriptor :: "MCPServersConfig \<Rightarrow> string \<times> MCPServerConfig \<Rightarrow> server_descriptor" where
  "builtin_descriptor config entry =
     \<lparr>d_id = fst entry,
      d_name = builtin_name (fst entry),
      d_type = type_of (snd entry),
      d_url = url_of (snd entry),
      d_command = command_of (snd entry),
      d_args = args_of (snd entry),
      d_enabled = nullish_or (obj_get (enabled config) (fst entry)) True,
      d_builtin = True\<rparr>"

definition custom_descriptor :: "MCPServersConfig \<Rightarrow> string \<times> MCPServerConfig \<Rightarrow> server_descriptor" where
  "custom_descriptor config entry =
     \<lparr>d_id = fst entry,
      d_name = (case name (snd entry) of
                  None \<Rightarrow> fst entry
                | Some n \<Rightarrow> if n = [] then fst entry else n),
      d_type = type_of (snd entry),
      d_url = url_of (snd entry),
      d_command = command_of (snd entry),
      d_args = args_of (snd entry),
      d_enabled = nullish_or (obj_get (enabled config) (fst entry)) True,
      d_builtin = False\<rparr>"

definition getAllServers :: "MCPServerConfig js_obj option \<Rightarrow> MCPServersConfig \<Rightarrow> server_descriptor list" where
  "getAllServers anthropic config =
     map (builtin_descriptor config) (builtinServers anthropic)
     @ map (custom_descriptor config) (custom config)"

section \<open>Responses\<close>

text \<open>
  The JSON payloads the handler sends, and what a call of the handler comes to: the
  route is not handled (\<^verbatim>\<open>undefined\<close>), a response with its HTTP status, or a
  rejected promise (writing the file threw).
\<close>

datatype payload =
    Servers "server_descriptor list"
  | Toggled string "bool js_val"
  | Success
  | SuccessMessage string
  | SuccessId string
  | Failure string

datatype handled = NotHandled | Response nat payload | Rejected

section \<open>Toggle\<close>

text \<open>
  Each route is a function of the file system state and of what the router has
  taken from the request; it returns what the call comes to and the state it leaves.
\<close>

definition toggle_route ::
  "MCPServerConfig js_obj option \<Rightarrow> fs_state \<Rightarrow> string \<Rightarrow> handled \<times> fs_state" where
  "toggle_route anthropic st i =
     (let config = loadMCPConfig anthropic (overlay_file st);
          currentState = nullish_or (obj_get (enabled config) i) True;
          config' = config\<lparr>enabled := obj_set (enabled config) i (\<not> truthy_bool currentState)\<rparr>
      in case saveMCPConfig config' st of
           None \<Rightarrow> (Rejected, st)
         | Some st' \<Rightarrow> (Response 200 (Toggled i (obj_get (enabled config') i)), st'))"

section \<open>Connectivity probe\<close>

text \<open>
  The network is a parameter \<open>fetch\<close>: what a GET to a URL with the given headers
  comes to within the timeout, a response status or a thrown value (an \<^verbatim>\<open>Error\<close> with
  its message, or something else). A value inherited from \<^verbatim>\<open>Object.prototype\<close> has no
  property \<^verbatim>\<open>type\<close>, so the comparison \<^verbatim>\<open>serverConfig.type === 'http'\<close> fails for it and
  the route takes the branch of the stdio servers.
\<close>

datatype fetch_result = Status nat | ThrewError string | ThrewOther

fun show_nat :: "nat \<Rightarrow> string" where
  "show_nat n =
     (if n < 10 then [''0123456789'' ! n]
      else show_nat (n div 10) @ [''0123456789'' ! (n mod 10)])"

definition response_ok :: "nat \<Rightarrow> bool" where
  "response_ok s = (200 \<le> s \<and> s \<le> 299)"

definition probe_http ::
  "(string \<Rightarrow> string js_obj \<Rightarrow> fetch_result) \<Rightarrow> string \<Rightarrow> string js_obj option \<Rightarrow> handled" where
  "probe_http fetch u h =
     (case fetch u (case h of None \<Rightarrow> [] | Some hs \<Rightarrow> hs) of
        Status s \<Rightarrow>
          if response_ok s \<or> s = 404 \<or> s = 405 then Response 200 Success
          else Response 200 (Failure (''Server returned status '' @ show_nat s))
      | ThrewError m \<Rightarrow> Response 200 (Failure m)
      | ThrewOther \<Rightarrow> Response 200 (Failure ''Connection failed''))"

definition test_route ::
  "MCPServerConfig js_obj option \<Rightarrow> (string \<Rightarrow> string js_obj \<Rightarrow> fetch_result) \<Rightarrow> fs_state
     \<Rightarrow> string \<Rightarrow> handled \<times> fs_state" where
  "test_route anthropic fetch st i =
     (let config = loadMCPConfig anthropic (overlay_file st);
          serverConfig = or_obj (obj_get (builtinServers anthropic) i) (obj_get (custom config) i)
      in case serverConfig of
           Undefined \<Rightarrow> (Response 404 (Failure ''Server not found''), st)
         | Val (MCPHttpServerConfig n u h) \<Rightarrow> (probe_http fetch u h, st)
         | Val (MCPStdioServerConfig n c a e) \<Rightarrow>
             (Response 200 (SuccessMessage ''Stdio server configuration validated''), st)
         | ProtoVal \<Rightarrow>
             (Response 200 (SuccessMessage ''Stdio server configuration validated''), st))"

section \<open>Delete\<close>

definition delete_route ::
  "MCPServerConfig js_obj option \<Rightarrow> fs_state \<Rightarrow> string \<Rightarrow> handled \<times> fs_state" where
  "delete_route anthropic st i =
     (let config = loadMCPConfig anthropic (overlay_file st)
      in if truthy_obj (obj_get (custom config) i)
         then (let config' = \<lparr>enabled = obj_delete (enabled config) i,
                               custom = obj_delete (custom config) i\<rparr>
               in case saveMCPConfig config' st of
                    None \<Rightarrow> (Rejected, st)
                  | Some st' \<Rightarrow> (Response 200 (SuccessId i), st'))
         else (Response 400 (Failure ''Cannot delete built-in MCP servers''), st))"

section \<open>Create\<close>

text \<open>
  The request body is what \<^verbatim>\<open>req.json()\<close> returns, cast without any check: every field
  may be absent, and \<^verbatim>\<open>type\<close> is whatever string the client has sent, not only
  \<^verbatim>\<open>'http'\<close> or \<^verbatim>\<open>'stdio'\<close> as the cast declares. The tests \<^verbatim>\<open>!id\<close>, \<^verbatim>\<open>!type\<close>,
  \<^verbatim>\<open>!body.url\<close> and \<^verbatim>\<open>!body.command\<close> hold for an absent field and for the empty
  string.
\<close>

record create_body =
  b_id :: "string option"
  b_name :: "string option"
  b_type :: "string option"
  b_url :: "string option"
  b_headers :: "string js_obj option"
  b_command :: "string option"
  b_args :: "string list option"
  b_env :: "string js_obj option"

text \<open>The test \<^verbatim>\<open>/^[a-z0-9-]+$/.test(id)\<close>.\<close>

definition id_format_ok :: "string \<Rightarrow> bool" where
  "id_format_ok i =
     (case i of
        [] \<Rightarrow> False
      | c # cs \<Rightarrow> list_all (\<lambda>x. x \<in> set ''abcdefghijklmnopqrstuvwxyz0123456789-'') i)"

definition type_http :: string where
  "type_http = ''http''"

definition type_stdio :: string where
  "type_stdio = ''stdio''"

text \<open>
  The record stored under the new identifier. The branch \<^verbatim>\<open>type === 'http'\<close> is
  reached only after \<^verbatim>\<open>body.url\<close> has been found truthy, so the non-null assertion
  \<^verbatim>\<open>body.url!\<close> yields a string there. The \<^verbatim>\<open>else\<close> branch is taken for every other
  type, \<^verbatim>\<open>'stdio'\<close> or not: it stores a stdio record with \<^verbatim>\<open>body.command\<close> as it is,
  which has been tested only when the type is \<^verbatim>\<open>'stdio'\<close> and may be \<^verbatim>\<open>undefined\<close> or
  empty otherwise.
\<close>

fun asserted :: "string option \<Rightarrow> string" where
  "asserted None = []"
| "asserted (Some s) = s"

definition new_record :: "string \<Rightarrow> create_body \<Rightarrow> MCPServerConfig" where
  "new_record t body =
     (if t = type_http
      then MCPHttpServerConfig (b_name body) (asserted (b_url body)) (b_headers body)
      else MCPStdioServerConfig (b_name body) (b_command body) (b_args body) (b_env body))"

definition create_checked ::
  "MCPServerConfig js_obj option \<Rightarrow> fs_state \<Rightarrow> string \<Rightarrow> string \<Rightarrow> create_body
     \<Rightarrow> handled \<times> fs_state" where
  "create_checked anthropic st i t body =
     (if t = type_http \<and> falsy_str (b_url body)
      then (Response 400 (Failure ''HTTP servers require a URL''), st)
      else if t = type_stdio \<and> falsy_str (b_command body)
      then (Response 400 (Failure ''Stdio servers require a command''), st)
      else if \<not> id_format_ok i
      then (Response 400
              (Failure ''Server ID must be lowercase alphanumeric with dashes''), st)
      else (let config = loadMCPConfig anthropic (overlay_file st)
            in if truthy_obj (or_obj (obj_get (builtinServers anthropic) i)
                                     (obj_get (custom config) i))
               then (Response 400 (Failure ''MCP server with this ID already exists''), st)
               else (let config' = \<lparr>enabled = obj_set (enabled config) i True,
                                     custom = obj_set (custom config) i (new_record t body)\<rparr>
                     in case saveMCPConfig config' st of
                          None \<Rightarrow> (Rejected, st)
                        | Some st' \<Rightarrow> (Response 200 (SuccessId i), st'))))"

definition create_route ::
  "MCPServerConfig js_obj option \<Rightarrow> fs_state \<Rightarrow> create_body \<Rightarrow> handled \<times> fs_state" where
  "create_route anthropic st body =
     (case b_id body of
        None \<Rightarrow> (Response 400 (Failure ''Missing required fields: id, type''), st)
      | Some i \<Rightarrow>
          (case b_type body of
             None \<Rightarrow> (Response 400 (Failure ''Missing required fields: id, type''), st)
           | Some t \<Rightarrow>
               if i = [] \<or> t = []
               then (Response 400 (Failure ''Missing required fields: id, type''), st)
               else create_checked anthropic st i t body))"

section \<open>Request router\<close>

record request =
  req_method :: string
  pathname :: string
  json :: create_body

text \<open>
  The path patterns \<^verbatim>\<open>^\/api\/mcp-servers\/([^/]+)SUFFIX$\<close>, with the suffix
  \<^verbatim>\<open>\/toggle\<close>, \<^verbatim>\<open>\/test\<close> or empty: the captured identifier, if the path matches.
\<close>

definition api_prefix :: string where
  "api_prefix = ''/api/mcp-servers/''"

definition match_id :: "string \<Rightarrow> string \<Rightarrow> string option" where
  "match_id suffix path =
     (let pre = api_prefix;
          rest = drop (length pre) path;
          seg = takeWhile (\<lambda>c. c \<noteq> CHR ''/'') rest
      in if take (length pre) path = pre \<and> seg \<noteq> [] \<and> drop (length seg) rest = suffix
         then Some seg else None)"

definition handleMCPServerRoutes ::
  "MCPServerConfig js_obj option \<Rightarrow> (string \<Rightarrow> string js_obj \<Rightarrow> fetch_result) \<Rightarrow> fs_state
     \<Rightarrow> request \<Rightarrow> handled \<times> fs_state" where
  "handleMCPServerRoutes anthropic fetch st req =
     (if req_method req = ''GET'' \<and> pathname req = ''/api/mcp-servers''
      then (Response 200
              (Servers (getAllServers anthropic (loadMCPConfig anthropic (overlay_file st)))), st)
      else case (if req_method req = ''POST'' then match_id ''/toggle'' (pathname req) else None) of
        Some i \<Rightarrow> toggle_route anthropic st i
      | None \<Rightarrow>
      (case (if req_method req = ''POST'' then match_id ''/test'' (pathname req) else None) of
        Some i \<Rightarrow> test_route anthropic fetch st i
      | None \<Rightarrow>
      (case (if req_method req = ''DELETE'' then match_id [] (pathname req) else None) of
        Some i \<Rightarrow> delete_route anthropic st i
      | None \<Rightarrow>
      (if req_method req = ''POST'' \<and> pathname req = ''/api/mcp-servers''
       then create_route anthropic st (json req)
       else (NotHandled, st)))))"

section \<open>Notions the properties are stated with\<close>

text \<open>
  The effective enabled state of an identifier is the value of the expression
  \<^verbatim>\<open>config.enabled[id] ?? true\<close>, which the listing reports and Toggle negates.
\<close>

definition effective_enabled :: "MCPServersConfig \<Rightarrow> string \<Rightarrow> bool js_val" where
  "effective_enabled config i = nullish_or (obj_get (enabled config) i) True"


text \<open>
  The config the probe finds for an identifier: the value of
  \<^verbatim>\<open>builtinServers[id] || config.custom[id]\<close>.
\<close>

definition resolved ::
  "MCPServerConfig js_obj option \<Rightarrow> fs_state \<Rightarrow> string \<Rightarrow> MCPServerConfig js_val" where
  "resolved anthropic st i =
     or_obj (obj_get (builtinServers anthropic) i)
            (obj_get (custom (loadMCPConfig anthropic (overlay_file st))) i)"

section \<open>Properties of the object operations\<close>

lemma map_of_insert_index:
  "k \<notin> fst ` set obj \<Longrightarrow> map_of (insert_index k v obj) = (map_of obj)(k \<mapsto> v)"
proof (induction obj)
  case Nil
  then show ?case by simp
next
  case (Cons p ps)
  then have "k \<noteq> fst p" and "k \<notin> fst ` set ps" by auto
  with Cons.IH show ?case
    by (cases p) (auto simp: fun_upd_twist)
qed

lemma keys_insert_index: "fst ` set (insert_index k v obj) = insert k (fst ` set obj)"
  by (induction obj) auto


lemma distinct_insert_index:
  "distinct (map fst obj) \<Longrightarrow> k \<notin> fst ` set obj \<Longrightarrow> distinct (map fst (insert_index k v obj))"
proof (induction obj)
  case Nil
  then show ?case by simp
next
  case (Cons p ps)
  then have "fst p \<notin> fst ` set (insert_index k v ps)"
    by (auto simp: keys_insert_index)
  with Cons show ?case by auto
qed

lemma map_of_append_new:
  "k \<notin> fst ` set obj \<Longrightarrow> map_of (obj @ [(k, v)]) = (map_of obj)(k \<mapsto> v)"
  by (induction obj) (auto simp: fun_upd_twist)

lemma map_of_overwrite:
  "k \<in> fst ` set obj \<Longrightarrow>
     map_of (map (\<lambda>p. if fst p = k then (k, v) else p) obj) = (map_of obj)(k \<mapsto> v)"
proof (induction obj)
  case Nil
  then show ?case by simp
next
  case (Cons p ps)
  show ?case
  proof (cases "k \<in> fst ` set ps")
    case True
    with Cons.IH show ?thesis by (cases p) (auto simp: fun_upd_twist)
  next
    case False
    then have "map (\<lambda>p. if fst p = k then (k, v) else p) ps = ps"
      by (induction ps) auto
    with False Cons.prems show ?thesis by (cases p) auto
  qed
qed

lemma keys_overwrite: "map fst (map (\<lambda>p. if fst p = k then (k, v) else p) obj) = map fst obj"
  by (induction obj) auto

lemma map_of_obj_set:
  "map_of (obj_set obj k v) =
     (if k \<in> fst ` set obj \<or> k \<noteq> proto_key then (map_of obj)(k \<mapsto> v) else map_of obj)"
proof (cases "k \<in> fst ` set obj")
  case True
  then show ?thesis by (simp add: obj_set_def map_of_overwrite del: set_map)
next
  case False
  then show ?thesis
    by (simp add: obj_set_def map_of_insert_index map_of_append_new del: map_of_append)
qed

lemma obj_get_obj_set:
  "obj_get (obj_set obj k v) k' =
     (if k' = k \<and> (k \<in> fst ` set obj \<or> k \<noteq> proto_key) then Val v else obj_get obj k')"
  by (simp add: obj_get_def map_of_obj_set)

lemma keys_obj_set:
  "fst ` set (obj_set obj k v) =
     (if k = proto_key then fst ` set obj else insert k (fst ` set obj))"
proof (cases "k \<in> fst ` set obj")
  case True
  have "set (map fst (obj_set obj k v)) = set (map fst obj)"
    using True by (simp only: obj_set_def if_True keys_overwrite)
  with True show ?thesis by auto
next
  case False
  then show ?thesis by (simp add: obj_set_def keys_insert_index)
qed

lemma distinct_obj_set:
  "distinct (map fst obj) \<Longrightarrow> distinct (map fst (obj_set obj k v))"
proof (cases "k \<in> fst ` set obj")
  case True
  assume "distinct (map fst obj)"
  then show ?thesis
    using True by (simp only: obj_set_def if_True keys_overwrite)
next
  case False
  assume "distinct (map fst obj)"
  with False show ?thesis by (simp add: obj_set_def distinct_insert_index)
qed



lemma obj_set_proto_key: "proto_key \<notin> fst ` set obj \<Longrightarrow> obj_set obj proto_key v = obj"
  by (simp add: obj_set_def)

lemma map_of_obj_delete: "map_of (obj_delete obj k) = (map_of obj)(k := None)"
  by (induction obj) (auto simp: obj_delete_def)

lemma keys_obj_delete: "fst ` set (obj_delete obj k) = fst ` set obj - {k}"
  by (auto simp: obj_delete_def)

lemma distinct_obj_delete: "distinct (map fst obj) \<Longrightarrow> distinct (map fst (obj_delete obj k))"
  by (simp add: obj_delete_def distinct_map_filter)

lemma obj_get_obj_delete:
  "obj_get (obj_delete obj k) k' =
     (if k' = k then (if k \<in> set object_prototype_keys then ProtoVal else Undefined)
      else obj_get obj k')"
  by (simp add: obj_get_def map_of_obj_delete)

lemma key_iff: "k \<in> fst ` set obj \<longleftrightarrow> map_of obj k \<noteq> None"
  by (simp add: map_of_eq_None_iff)

lemma obj_get_own: "obj_get obj k = Val v \<longleftrightarrow> map_of obj k = Some v"
  by (cases "map_of obj k") (simp_all add: obj_get_def)

lemma obj_get_Undefined:
  "obj_get obj k = Undefined \<longleftrightarrow> k \<notin> fst ` set obj \<and> k \<notin> set object_prototype_keys"
  by (cases "map_of obj k") (simp_all add: obj_get_def key_iff)

lemma obj_get_ProtoVal:
  "obj_get obj k = ProtoVal \<longleftrightarrow> k \<notin> fst ` set obj \<and> k \<in> set object_prototype_keys"
  by (cases "map_of obj k") (simp_all add: obj_get_def key_iff)

lemma truthy_obj_get:
  "truthy_obj (obj_get obj k) \<longleftrightarrow> k \<in> fst ` set obj \<or> k \<in> set object_prototype_keys"
  by (cases "map_of obj k") (simp_all add: obj_get_def key_iff)

lemma truthy_or_obj: "truthy_obj (or_obj a b) \<longleftrightarrow> truthy_obj a \<or> truthy_obj b"
  by (cases a) simp_all

lemma proto_key_inherited: "proto_key \<in> set object_prototype_keys"
  by (simp add: proto_key_def object_prototype_keys_def)

lemma not_id_format_ok_proto_key: "\<not> id_format_ok proto_key"
  by (simp add: id_format_ok_def proto_key_def)

lemma map_of_fold_set_true:
  "map_of (fold (\<lambda>key en. obj_set en key True) ks en) k =
     (if k \<in> set ks \<and> (k \<in> fst ` set en \<or> k \<noteq> proto_key) then Some True
      else map_of en k)"
proof (induction ks arbitrary: en)
  case Nil
  then show ?case by simp
next
  case (Cons x xs)
  show ?case
    by (simp add: Cons.IH map_of_obj_set keys_obj_set)
qed

lemma keys_fold_set_true:
  "proto_key \<notin> set ks \<Longrightarrow>
     fst ` set (fold (\<lambda>key en. obj_set en key True) ks en) = fst ` set en \<union> set ks"
proof (induction ks arbitrary: en)
  case Nil
  then show ?case by simp
next
  case (Cons x xs)
  then show ?case
    by (auto simp: keys_obj_set)
qed

section \<open>Properties of the ConfigStore\<close>

lemma load_Json [simp]: "loadMCPConfig anthropic (Json config) = config"
  by (simp add: loadMCPConfig_def)

lemma default_config_enabled:
  assumes "proto_key \<notin> fst ` set (builtinServers anthropic)"
    and "k \<in> fst ` set (builtinServers anthropic)"
  shows "obj_get (enabled (default_config anthropic)) k = Val True"
proof -
  from assms have "k \<noteq> proto_key" by metis
  with assms(2) have "map_of (enabled (default_config anthropic)) k = Some True"
    by (simp add: default_config_def map_of_fold_set_true)
  then show ?thesis by (simp add: obj_get_own)
qed

text \<open>
  Claim C7. Whenever the overlay file is missing, unreadable or unparseable,
  \<open>loadMCPConfig\<close> returns a value (it is a total function: the \<^verbatim>\<open>catch\<close> block raises
  nothing), and that value is the default overlay: its \<open>custom\<close> object is empty and
  its \<open>enabled\<close> object holds \<open>true\<close> under every built-in identifier, and nothing
  else. The registry is an object written as a literal, which has no own property
  \<^verbatim>\<open>__proto__\<close>.
\<close>

theorem C7_load_default_overlay:
  assumes "f \<in> {Missing, Unreadable, Unparseable}"
    and "proto_key \<notin> fst ` set (builtinServers anthropic)"
  shows "custom (loadMCPConfig anthropic f) = []
       \<and> fst ` set (enabled (loadMCPConfig anthropic f)) = fst ` set (builtinServers anthropic)
       \<and> (\<forall>k \<in> fst ` set (builtinServers anthropic).
             map_of (enabled (loadMCPConfig anthropic f)) k = Some True
           \<and> obj_get (enabled (loadMCPConfig anthropic f)) k = Val True)"
proof -
  from assms(1) have load: "loadMCPConfig anthropic f = default_config anthropic"
    by (auto simp: loadMCPConfig_def)
  have keys: "fst ` set (enabled (default_config anthropic)) = fst ` set (builtinServers anthropic)"
    using assms(2) by (simp add: default_config_def keys_fold_set_true)
  have vals: "map_of (enabled (default_config anthropic)) k = Some True"
    if "k \<in> fst ` set (builtinServers anthropic)" for k
    using that assms(2) by (force simp: default_config_def map_of_fold_set_true)
  have "custom (default_config anthropic) = []"
    by (simp add: default_config_def)
  with keys vals show ?thesis
    unfolding load by (simp add: obj_get_def)
qed

theorem C7_load_default_overlay_witness:
  "Missing \<in> {Missing, Unreadable, Unparseable}
   \<and> custom (loadMCPConfig
        (Some [(''github'', MCPHttpServerConfig None ''https://example.org/mcp'' None),
               (''files'', MCPStdioServerConfig None (Some ''npx'') (Some [''files-mcp'']) None)])
        Missing) = []
   \<and> obj_get (enabled (loadMCPConfig
        (Some [(''github'', MCPHttpServerConfig None ''https://example.org/mcp'' None),
               (''files'', MCPStdioServerConfig None (Some ''npx'') (Some [''files-mcp'']) None)])
        Missing)) ''files'' = Val True"
  using C7_load_default_overlay
    [of Missing "Some [(''github'', MCPHttpServerConfig None ''https://example.org/mcp'' None),
                       (''files'', MCPStdioServerConfig None (Some ''npx'') (Some [''files-mcp'']) None)]"]
  by (simp add: builtinServers_def proto_key_def)

section \<open>Properties of the registry merge\<close>

lemma length_getAllServers:
  "length (getAllServers anthropic config) =
     length (builtinServers anthropic) + length (custom config)"
  by (simp add: getAllServers_def)

lemma getAllServers_nth_builtin:
  "n < length (builtinServers anthropic) \<Longrightarrow>
     getAllServers anthropic config ! n = builtin_descriptor config (builtinServers anthropic ! n)"
  by (simp add: getAllServers_def nth_append)

lemma getAllServers_nth_custom:
  "n < length (custom config) \<Longrightarrow>
     getAllServers anthropic config ! (length (builtinServers anthropic) + n) =
       custom_descriptor config (custom config ! n)"
  by (simp add: getAllServers_def nth_append)

lemma getAllServers_ids:
  "map d_id (getAllServers anthropic config) =
     map fst (builtinServers anthropic) @ map fst (custom config)"
  by (simp add: getAllServers_def builtin_descriptor_def custom_descriptor_def)

lemma getAllServers_distinct:
  assumes "distinct (map fst (builtinServers anthropic) @ map fst (custom config))"
  shows "distinct (map d_id (getAllServers anthropic config))"
  using assms by (simp only: getAllServers_ids)

lemma getAllServers_builtin_flags:
  "map d_builtin (getAllServers anthropic config) =
     replicate (length (builtinServers anthropic)) True
     @ replicate (length (custom config)) False"
  by (simp add: getAllServers_def builtin_descriptor_def custom_descriptor_def comp_def
        map_replicate_const)

lemma getAllServers_custom_name:
  assumes "n < length (custom config)"
  shows "d_name (getAllServers anthropic config ! (length (builtinServers anthropic) + n)) =
     (case name (snd (custom config ! n)) of
        None \<Rightarrow> fst (custom config ! n)
      | Some nm \<Rightarrow> if nm = [] then fst (custom config ! n) else nm)"
  using assms by (simp add: getAllServers_nth_custom custom_descriptor_def)

lemma getAllServers_enabled:
  "map d_enabled (getAllServers anthropic config) =
     map (effective_enabled config) (map fst (builtinServers anthropic) @ map fst (custom config))"
  by (simp add: getAllServers_def builtin_descriptor_def custom_descriptor_def
        effective_enabled_def)

lemma effective_enabled_own:
  "map_of (enabled config) i = Some b \<Longrightarrow> effective_enabled config i = Val b"
  by (simp add: effective_enabled_def obj_get_def)

lemma effective_enabled_absent:
  "i \<notin> fst ` set (enabled config) \<Longrightarrow> i \<notin> set object_prototype_keys \<Longrightarrow>
     effective_enabled config i = Val True"
  by (simp add: effective_enabled_def obj_get_def key_iff)

lemma effective_enabled_inherited:
  "i \<notin> fst ` set (enabled config) \<Longrightarrow> i \<in> set object_prototype_keys \<Longrightarrow>
     effective_enabled config i = ProtoVal"
  by (simp add: effective_enabled_def obj_get_def key_iff)

lemma default_listing_enabled:
  assumes "f \<in> {Missing, Unreadable, Unparseable}"
    and "proto_key \<notin> fst ` set (builtinServers anthropic)"
    and "n < length (builtinServers anthropic)"
  shows "d_enabled (getAllServers anthropic (loadMCPConfig anthropic f) ! n) = Val True"
proof -
  from assms(1) have load: "loadMCPConfig anthropic f = default_config anthropic"
    by (auto simp: loadMCPConfig_def)
  from assms(3) have "fst (builtinServers anthropic ! n) \<in> fst ` set (builtinServers anthropic)"
    by simp
  from default_config_enabled [OF assms(2) this] assms(3) show ?thesis
    by (simp add: load getAllServers_nth_builtin builtin_descriptor_def)
qed

text \<open>
  Claim C2 describes the listing: one descriptor per built-in identifier in registry
  order, then one per custom identifier in overlay order, with the \<open>builtin\<close> flag,
  the custom name rule and the effective enabled state (the \<open>enabled\<close> entry when
  there is one, true otherwise). The lemmas above show the order, the flags, the
  names, and the enabled state for every identifier that has an \<open>enabled\<close> entry or
  is not the name of a property of \<^verbatim>\<open>Object.prototype\<close>. For such a name without an
  entry, \<^verbatim>\<open>config.enabled[id] ?? true\<close> is the inherited property, not \<open>true\<close>: an
  overlay file with a custom server \<^verbatim>\<open>constructor\<close> and an empty \<open>enabled\<close> map is
  listed with that function as the descriptor's \<open>enabled\<close> field.
\<close>

theorem C2_listing_constructor:
  "handleMCPServerRoutes None fetch
     \<lparr>overlay_file =
        Json \<lparr>enabled = [],
              custom = [(''constructor'',
                         MCPHttpServerConfig None ''https://example.org/mcp'' None)]\<rparr>,
      writable = True\<rparr>
     \<lparr>req_method = ''GET'', pathname = ''/api/mcp-servers'', json = body\<rparr> =
   (Response 200
      (Servers [\<lparr>d_id = ''constructor'', d_name = ''constructor'', d_type = http,
                 d_url = Some ''https://example.org/mcp'', d_command = None, d_args = None,
                 d_enabled = ProtoVal, d_builtin = False\<rparr>]),
    \<lparr>overlay_file =
        Json \<lparr>enabled = [],
              custom = [(''constructor'',
                         MCPHttpServerConfig None ''https://example.org/mcp'' None)]\<rparr>,
      writable = True\<rparr>)"
  by (simp add: handleMCPServerRoutes_def getAllServers_def builtinServers_def
        custom_descriptor_def loadMCPConfig_def obj_get_def object_prototype_keys_def)

lemma builtin_name_Nil: "builtin_name [] = []"
  by (simp add: builtin_name_def toUpperCase_def replace_hyphens_def)

lemma builtin_name_Cons:
  "builtin_name (c # cs) =
     toUpperCase_char c # map (\<lambda>x. if x = CHR ''-'' then CHR '' '' else x) cs"
  by (simp add: builtin_name_def toUpperCase_def replace_hyphens_def)

text \<open>
  Claim C3 says that a built-in descriptor shows the config record's own name when
  that name is not empty, and the humanized identifier otherwise. The code never
  reads the record's name on the built-in path: a built-in server whose record is
  named \<^verbatim>\<open>Fancy\<close> and whose identifier is \<^verbatim>\<open>my-tool\<close> is listed as \<^verbatim>\<open>My tool\<close>.
\<close>

theorem C3_counterexample:
  "d_name (hd (getAllServers
      (Some [(''my-tool'', MCPHttpServerConfig (Some ''Fancy'') ''https://example.org/mcp'' None)])
      \<lparr>enabled = [], custom = []\<rparr>)) = ''My tool''
   \<and> name (MCPHttpServerConfig (Some ''Fancy'') ''https://example.org/mcp'' None) = Some ''Fancy''
   \<and> ''My tool'' \<noteq> ''Fancy''"
  by (simp add: getAllServers_def builtinServers_def builtin_descriptor_def builtin_name_def
        toUpperCase_def toUpperCase_char_def replace_hyphens_def)

text \<open>
  Claim C3, amended. The \<open>n\<close>-th descriptor of the listing, for \<open>n\<close> below the
  number of built-in servers, is the one of the \<open>n\<close>-th registry entry, is marked
  built-in, and its display name is computed from the identifier alone: the first
  character in upper case, followed by the rest of the identifier with each hyphen
  replaced by a space. The record's own name plays no part.
\<close>

theorem C3_builtin_display_name:
  assumes "n < length (builtinServers anthropic)"
  shows "d_id (getAllServers anthropic config ! n) = fst (builtinServers anthropic ! n)
       \<and> d_builtin (getAllServers anthropic config ! n)
       \<and> d_name (getAllServers anthropic config ! n) =
           (case fst (builtinServers anthropic ! n) of
              [] \<Rightarrow> []
            | c # cs \<Rightarrow> toUpperCase_char c # map (\<lambda>x. if x = CHR ''-'' then CHR '' '' else x) cs)"
proof -
  have "d_name (builtin_descriptor config e) =
          (case fst e of [] \<Rightarrow> []
           | c # cs \<Rightarrow> toUpperCase_char c # map (\<lambda>x. if x = CHR ''-'' then CHR '' '' else x) cs)"
    for e
    by (cases "fst e") (simp_all add: builtin_descriptor_def builtin_name_Nil builtin_name_Cons)
  then show ?thesis
    using assms by (simp add: getAllServers_nth_builtin builtin_descriptor_def)
qed

theorem C3_builtin_display_name_witness:
  "(0::nat) < length (builtinServers
      (Some [(''my-tool'', MCPHttpServerConfig (Some ''Fancy'') ''https://example.org/mcp'' None)]))
   \<and> d_name (getAllServers
      (Some [(''my-tool'', MCPHttpServerConfig (Some ''Fancy'') ''https://example.org/mcp'' None)])
      \<lparr>enabled = [(''my-tool'', False)], custom = []\<rparr> ! 0) = ''My tool''"
  using C3_builtin_display_name
    [of 0 "Some [(''my-tool'', MCPHttpServerConfig (Some ''Fancy'') ''https://example.org/mcp'' None)]"
        "\<lparr>enabled = [(''my-tool'', False)], custom = []\<rparr>"]
  by (simp add: builtinServers_def toUpperCase_char_def)

section \<open>Properties of Toggle\<close>

lemma toggle_route_writable:
  assumes "writable st"
  shows "toggle_route anthropic st i =
     (Response 200
        (Toggled i
           (obj_get
              (obj_set (enabled (loadMCPConfig anthropic (overlay_file st))) i
                 (\<not> truthy_bool (effective_enabled (loadMCPConfig anthropic (overlay_file st)) i)))
              i)),
      st\<lparr>overlay_file :=
           Json ((loadMCPConfig anthropic (overlay_file st))
                   \<lparr>enabled :=
                      obj_set (enabled (loadMCPConfig anthropic (overlay_file st))) i
                        (\<not> truthy_bool
                             (effective_enabled (loadMCPConfig anthropic (overlay_file st)) i))\<rparr>)\<rparr>)"
  using assms by (simp add: toggle_route_def saveMCPConfig_def effective_enabled_def Let_def)

lemma toggle_route_unwritable:
  "\<not> writable st \<Longrightarrow> toggle_route anthropic st i = (Rejected, st)"
  by (simp add: toggle_route_def saveMCPConfig_def Let_def)

lemma toggle_route_ordinary:
  assumes "writable st"
    and "i \<in> fst ` set (enabled (loadMCPConfig anthropic (overlay_file st))) \<or> i \<noteq> proto_key"
  shows "\<exists>config'.
      toggle_route anthropic st i =
        (Response 200
           (Toggled i
              (Val (\<not> truthy_bool
                        (effective_enabled (loadMCPConfig anthropic (overlay_file st)) i)))),
         st\<lparr>overlay_file := Json config'\<rparr>)
    \<and> obj_get (enabled config') i =
        Val (\<not> truthy_bool (effective_enabled (loadMCPConfig anthropic (overlay_file st)) i))
    \<and> custom config' = custom (loadMCPConfig anthropic (overlay_file st))
    \<and> (\<forall>k. k \<noteq> i \<longrightarrow>
          obj_get (enabled config') k =
            obj_get (enabled (loadMCPConfig anthropic (overlay_file st))) k)"
proof -
  define config where "config = loadMCPConfig anthropic (overlay_file st)"
  define config' where
    "config' = config\<lparr>enabled :=
                 obj_set (enabled config) i (\<not> truthy_bool (effective_enabled config i))\<rparr>"
  have get: "obj_get (enabled config') k =
          (if k = i then Val (\<not> truthy_bool (effective_enabled config i))
           else obj_get (enabled config) k)" for k
    using assms(2) by (auto simp: config'_def config_def obj_get_obj_set)
  have "toggle_route anthropic st i =
          (Response 200 (Toggled i (obj_get (enabled config') i)),
           st\<lparr>overlay_file := Json config'\<rparr>)"
    using toggle_route_writable [OF assms(1), of anthropic i]
    by (simp add: config'_def config_def)
  moreover have "custom config' = custom config"
    by (simp add: config'_def)
  ultimately show ?thesis
    unfolding config_def [symmetric] using get
    by (intro exI [of _ config']) simp
qed

lemma toggle_route_proto_key:
  assumes "writable st"
    and "proto_key \<notin> fst ` set (enabled (loadMCPConfig anthropic (overlay_file st)))"
  shows "toggle_route anthropic st proto_key =
           (Response 200 (Toggled proto_key ProtoVal),
            st\<lparr>overlay_file := Json (loadMCPConfig anthropic (overlay_file st))\<rparr>)"
proof -
  from assms(2) have "obj_get (enabled (loadMCPConfig anthropic (overlay_file st))) proto_key =
      ProtoVal"
    using proto_key_inherited by (simp add: obj_get_ProtoVal)
  with assms show ?thesis
    by (simp add: toggle_route_def saveMCPConfig_def obj_set_proto_key Let_def)
qed

text \<open>
  Claim C5 says that Toggle, for every identifier and overlay, stores the negation
  of the current effective enabled state under \<open>enabled[id]\<close>, changes nothing
  else, saves, and reports the new state. The lemmas above show this for every
  identifier but \<^verbatim>\<open>__proto__\<close>. The assignment \<^verbatim>\<open>config.enabled['__proto__'] = false\<close> runs
  the setter inherited from \<^verbatim>\<open>Object.prototype\<close> and stores nothing:
  \<^verbatim>\<open>POST /api/mcp-servers/__proto__/toggle\<close> leaves \<open>enabled\<close> as it was, and the
  \<^verbatim>\<open>enabled\<close> field of its response is the prototype object, not a boolean.
\<close>

theorem C5_toggle_proto:
  "handleMCPServerRoutes None fetch
     \<lparr>overlay_file = Json \<lparr>enabled = [(''github'', True)], custom = []\<rparr>, writable = True\<rparr>
     \<lparr>req_method = ''POST'', pathname = ''/api/mcp-servers/__proto__/toggle'', json = body\<rparr> =
   (Response 200 (Toggled ''__proto__'' ProtoVal),
    \<lparr>overlay_file = Json \<lparr>enabled = [(''github'', True)], custom = []\<rparr>, writable = True\<rparr>)"
  by (simp add: handleMCPServerRoutes_def match_id_def api_prefix_def toggle_route_def loadMCPConfig_def
        obj_get_def object_prototype_keys_def obj_set_def proto_key_def saveMCPConfig_def)

text \<open>
  Claim C9 says that Toggle on an identifier that is neither built-in nor custom
  and has no \<open>enabled\<close> entry stores \<open>enabled[id] = false\<close> and answers
  \<^verbatim>\<open>{success: true, id, enabled: false}\<close>. By \<open>toggle_route_ordinary\<close> this is so for
  every such identifier but \<^verbatim>\<open>__proto__\<close>. With a registry holding one server and no
  overlay file, toggling \<^verbatim>\<open>__proto__\<close> writes the default overlay without any entry
  for \<^verbatim>\<open>__proto__\<close>, and the \<^verbatim>\<open>enabled\<close> field of the response is the prototype object.
\<close>

theorem C9_toggle_unknown_proto:
  "toggle_route
     (Some [(''github'', MCPHttpServerConfig None ''https://example.org/mcp'' None)])
     \<lparr>overlay_file = Missing, writable = True\<rparr> ''__proto__'' =
   (Response 200 (Toggled ''__proto__'' ProtoVal),
    \<lparr>overlay_file = Json \<lparr>enabled = [(''github'', True)], custom = []\<rparr>, writable = True\<rparr>)
   \<and> ''__proto__'' \<notin> fst ` set (builtinServers
         (Some [(''github'', MCPHttpServerConfig None ''https://example.org/mcp'' None)]))
   \<and> custom (loadMCPConfig
         (Some [(''github'', MCPHttpServerConfig None ''https://example.org/mcp'' None)])
         Missing) = []
   \<and> map_of (enabled (loadMCPConfig
         (Some [(''github'', MCPHttpServerConfig None ''https://example.org/mcp'' None)])
         Missing)) ''__proto__'' = None"
  by (simp add: toggle_route_def loadMCPConfig_def default_config_def builtinServers_def
        obj_get_def object_prototype_keys_def obj_set_def proto_key_def is_array_index_def
        is_digit_def saveMCPConfig_def)

lemma truthy_effective_enabled:
  "truthy_bool (effective_enabled config i) =
     (case map_of (enabled config) i of None \<Rightarrow> True | Some b \<Rightarrow> b)"
  by (simp add: effective_enabled_def obj_get_def split: option.split)

text \<open>
  Claim C8. Two calls of Toggle for the same identifier, the second reading the
  file the first has written, bring the identifier's effective enabled state back
  to what it was: the truth value that Toggle negates (the truthiness of
  \<^verbatim>\<open>config.enabled[id] ?? true\<close>) is the same after the second call as before the
  first, and so is the state read from the \<open>enabled\<close> entries alone (the entry if
  there is one, true otherwise). The value of \<^verbatim>\<open>config.enabled[id] ?? true\<close> itself is
  the same too, unless before the first call it was not a boolean but a value
  inherited from \<^verbatim>\<open>Object.prototype\<close>. The \<open>custom\<close> object is untouched.
\<close>

theorem C8_toggle_twice:
  assumes w: "writable st"
    and t1: "toggle_route anthropic st i = (r1, st1)"
    and t2: "toggle_route anthropic st1 i = (r2, st2)"
  shows "truthy_bool (effective_enabled (loadMCPConfig anthropic (overlay_file st2)) i) =
           truthy_bool (effective_enabled (loadMCPConfig anthropic (overlay_file st)) i)
       \<and> (case map_of (enabled (loadMCPConfig anthropic (overlay_file st2))) i of
             None \<Rightarrow> True | Some b \<Rightarrow> b) =
         (case map_of (enabled (loadMCPConfig anthropic (overlay_file st))) i of
             None \<Rightarrow> True | Some b \<Rightarrow> b)
       \<and> (obj_get (enabled (loadMCPConfig anthropic (overlay_file st))) i \<noteq> ProtoVal \<longrightarrow>
            effective_enabled (loadMCPConfig anthropic (overlay_file st2)) i =
              effective_enabled (loadMCPConfig anthropic (overlay_file st)) i)
       \<and> custom (loadMCPConfig anthropic (overlay_file st2)) =
           custom (loadMCPConfig anthropic (overlay_file st))"
proof -
  define c0 where "c0 = loadMCPConfig anthropic (overlay_file st)"
  define b0 where "b0 = truthy_bool (effective_enabled c0 i)"
  define c1 where "c1 = c0\<lparr>enabled := obj_set (enabled c0) i (\<not> b0)\<rparr>"
  define b1 where "b1 = truthy_bool (effective_enabled c1 i)"
  define c2 where "c2 = c1\<lparr>enabled := obj_set (enabled c1) i (\<not> b1)\<rparr>"
  have st1: "st1 = st\<lparr>overlay_file := Json c1\<rparr>"
    using t1 toggle_route_writable [OF w, of anthropic i]
    by (simp add: c0_def b0_def c1_def)
  then have l1: "loadMCPConfig anthropic (overlay_file st1) = c1" and w1: "writable st1"
    using w by simp_all
  have st2: "st2 = st1\<lparr>overlay_file := Json c2\<rparr>"
    using t2 toggle_route_writable [OF w1, of anthropic i]
    by (simp add: l1 b1_def c2_def)
  then have l2: "loadMCPConfig anthropic (overlay_file st2) = c2"
    by simp
  have cust: "custom c2 = custom c0"
    by (simp add: c2_def c1_def)
  have truthy: "truthy_bool (effective_enabled c2 i) = b0"
    and eff: "obj_get (enabled c0) i \<noteq> ProtoVal \<longrightarrow> effective_enabled c2 i = effective_enabled c0 i"
  proof -
    show "truthy_bool (effective_enabled c2 i) = b0"
    proof (cases "i \<in> fst ` set (enabled c0) \<or> i \<noteq> proto_key")
      case True
      then have g1: "obj_get (enabled c1) i = Val (\<not> b0)"
        by (simp add: c1_def obj_get_obj_set)
      then have "b1 = (\<not> b0)"
        by (simp add: b1_def effective_enabled_def)
      moreover have "i \<in> fst ` set (enabled c1) \<or> i \<noteq> proto_key"
        using True by (auto simp: c1_def keys_obj_set)
      ultimately have "obj_get (enabled c2) i = Val b0"
        by (simp add: c2_def obj_get_obj_set)
      then show ?thesis
        by (simp add: effective_enabled_def)
    next
      case False
      then have "enabled c1 = enabled c0"
        by (auto simp: c1_def obj_set_proto_key)
      then have "c1 = c0" by (simp add: c1_def)
      with False have "enabled c2 = enabled c0"
        by (auto simp: c2_def obj_set_proto_key)
      then show ?thesis
        by (simp add: b0_def effective_enabled_def)
    qed
    then have "effective_enabled c2 i = Val b0" if "obj_get (enabled c2) i \<noteq> ProtoVal"
      using that by (cases "obj_get (enabled c2) i") (simp_all add: effective_enabled_def)
    moreover have "effective_enabled c0 i = Val b0" if "obj_get (enabled c0) i \<noteq> ProtoVal"
      using that by (cases "obj_get (enabled c0) i") (simp_all add: effective_enabled_def b0_def)
    moreover have "obj_get (enabled c2) i \<noteq> ProtoVal" if "obj_get (enabled c0) i \<noteq> ProtoVal"
    proof (cases "i \<in> fst ` set (enabled c0) \<or> i \<noteq> proto_key")
      case True
      then have "i \<in> fst ` set (enabled c1) \<or> i \<noteq> proto_key"
        by (auto simp: c1_def keys_obj_set)
      then show ?thesis by (simp add: c2_def obj_get_obj_set)
    next
      case False
      then have "obj_get (enabled c0) i = ProtoVal"
        using proto_key_inherited by (auto simp: obj_get_def map_of_eq_None_iff split: option.split)
      with that show ?thesis by simp
    qed
    ultimately show "obj_get (enabled c0) i \<noteq> ProtoVal \<longrightarrow> effective_enabled c2 i = effective_enabled c0 i"
      by simp
  qed
  from truthy have "truthy_bool (effective_enabled c2 i) = truthy_bool (effective_enabled c0 i)"
    by (simp add: b0_def)
  with eff cust show ?thesis
    unfolding l2 c0_def [symmetric] by (simp add: truthy_effective_enabled)
qed

theorem C8_toggle_twice_witness:
  "writable \<lparr>overlay_file = Json \<lparr>enabled = [(''github'', False)], custom = []\<rparr>, writable = True\<rparr>
   \<and> toggle_route None
        \<lparr>overlay_file = Json \<lparr>enabled = [(''github'', False)], custom = []\<rparr>, writable = True\<rparr>
        ''github'' =
       (Response 200 (Toggled ''github'' (Val True)),
        \<lparr>overlay_file = Json \<lparr>enabled = [(''github'', True)], custom = []\<rparr>, writable = True\<rparr>)
   \<and> toggle_route None
        \<lparr>overlay_file = Json \<lparr>enabled = [(''github'', True)], custom = []\<rparr>, writable = True\<rparr>
        ''github'' =
       (Response 200 (Toggled ''github'' (Val False)),
        \<lparr>overlay_file = Json \<lparr>enabled = [(''github'', False)], custom = []\<rparr>, writable = True\<rparr>)
   \<and> effective_enabled
        (loadMCPConfig None
           (overlay_file
              \<lparr>overlay_file = Json \<lparr>enabled = [(''github'', False)], custom = []\<rparr>,
                 writable = True\<rparr>))
        ''github'' = Val False"
proof -
  have t1: "toggle_route None
        \<lparr>overlay_file = Json \<lparr>enabled = [(''github'', False)], custom = []\<rparr>, writable = True\<rparr>
        ''github'' =
       (Response 200 (Toggled ''github'' (Val True)),
        \<lparr>overlay_file = Json \<lparr>enabled = [(''github'', True)], custom = []\<rparr>, writable = True\<rparr>)"
    by (simp add: toggle_route_def loadMCPConfig_def saveMCPConfig_def obj_get_def obj_set_def)
  have t2: "toggle_route None
        \<lparr>overlay_file = Json \<lparr>enabled = [(''github'', True)], custom = []\<rparr>, writable = True\<rparr>
        ''github'' =
       (Response 200 (Toggled ''github'' (Val False)),
        \<lparr>overlay_file = Json \<lparr>enabled = [(''github'', False)], custom = []\<rparr>, writable = True\<rparr>)"
    by (simp add: toggle_route_def loadMCPConfig_def saveMCPConfig_def obj_get_def obj_set_def)
  have w: "writable \<lparr>overlay_file = Json \<lparr>enabled = [(''github'', False)], custom = []\<rparr>, writable = True\<rparr>"
    by simp
  from C8_toggle_twice [OF w t1 t2] t1 t2 show ?thesis
    by (simp add: effective_enabled_def obj_get_def)
qed

section \<open>Properties of the connectivity probe\<close>

lemma probe_http_status:
  assumes "fetch u (case h of None \<Rightarrow> [] | Some hs \<Rightarrow> hs) = Status s"
  shows "probe_http fetch u h =
           (if (200 \<le> s \<and> s \<le> 299) \<or> s = 404 \<or> s = 405 then Response 200 Success
            else Response 200 (Failure (''Server returned status '' @ show_nat s)))"
  using assms by (simp add: probe_http_def response_ok_def)

lemma probe_http_threw:
  assumes "fetch u (case h of None \<Rightarrow> [] | Some hs \<Rightarrow> hs) = ThrewError m"
  shows "probe_http fetch u h = Response 200 (Failure m)"
  using assms by (simp add: probe_http_def)

lemma probe_http_threw_other:
  assumes "fetch u (case h of None \<Rightarrow> [] | Some hs \<Rightarrow> hs) = ThrewOther"
  shows "probe_http fetch u h = Response 200 (Failure ''Connection failed'')"
  using assms by (simp add: probe_http_def)

lemma probe_http_never_throws:
  "\<exists>p. probe_http fetch u h = Response 200 p"
  by (simp add: probe_http_def split: fetch_result.split)

lemma test_route_http:
  assumes "resolved anthropic st i = Val (MCPHttpServerConfig n u h)"
  shows "test_route anthropic fetch st i = (probe_http fetch u h, st)"
  using assms by (simp add: test_route_def resolved_def)

lemma test_route_stdio:
  assumes "resolved anthropic st i = Val (MCPStdioServerConfig n c a e)"
  shows "test_route anthropic fetch st i =
           (Response 200 (SuccessMessage ''Stdio server configuration validated''), st)"
  using assms by (simp add: test_route_def resolved_def)

lemma test_route_not_found:
  assumes "i \<notin> fst ` set (builtinServers anthropic)"
    and "i \<notin> fst ` set (custom (loadMCPConfig anthropic (overlay_file st)))"
    and "i \<notin> set object_prototype_keys"
  shows "test_route anthropic fetch st i = (Response 404 (Failure ''Server not found''), st)"
proof -
  from assms have "obj_get (builtinServers anthropic) i = Undefined"
    and "obj_get (custom (loadMCPConfig anthropic (overlay_file st))) i = Undefined"
    by (simp_all add: obj_get_Undefined)
  then show ?thesis by (simp add: test_route_def)
qed

lemma test_route_inherited:
  assumes "i \<notin> fst ` set (builtinServers anthropic)"
    and "i \<in> set object_prototype_keys"
  shows "test_route anthropic fetch st i =
           (Response 200 (SuccessMessage ''Stdio server configuration validated''), st)"
proof -
  from assms have "obj_get (builtinServers anthropic) i = ProtoVal"
    by (simp add: obj_get_ProtoVal)
  then show ?thesis by (simp add: test_route_def)
qed

text \<open>
  Claim C6 describes the probe: for an Http config, success exactly on a status in
  200..299, on 404 and on 405, a failure payload with the status or the error
  message otherwise, always with HTTP status 200; success for a Stdio config; a 404
  for an identifier found in neither registry. The lemmas above show all of it for
  every identifier that is not the name of a property of \<^verbatim>\<open>Object.prototype\<close>. For
  those names the lookup \<^verbatim>\<open>builtinServers[id] || config.custom[id]\<close> yields the inherited
  property, and the route answers as for a Stdio config:
  \<^verbatim>\<open>POST /api/mcp-servers/constructor/test\<close> with no such server anywhere gets status 200
  and \<^verbatim>\<open>{success: true, message: "Stdio server configuration validated"}\<close>.
\<close>

theorem C6_test_constructor:
  "handleMCPServerRoutes None fetch
     \<lparr>overlay_file = Json \<lparr>enabled = [], custom = []\<rparr>, writable = True\<rparr>
     \<lparr>req_method = ''POST'', pathname = ''/api/mcp-servers/constructor/test'', json = body\<rparr> =
   (Response 200 (SuccessMessage ''Stdio server configuration validated''),
    \<lparr>overlay_file = Json \<lparr>enabled = [], custom = []\<rparr>, writable = True\<rparr>)
   \<and> ''constructor'' \<notin> fst ` set (builtinServers None)
   \<and> ''constructor'' \<notin> fst ` set (custom (loadMCPConfig None (Json \<lparr>enabled = [], custom = []\<rparr>)))"
  by (simp add: handleMCPServerRoutes_def match_id_def api_prefix_def test_route_def loadMCPConfig_def
        builtinServers_def obj_get_def object_prototype_keys_def)

section \<open>Properties of Delete\<close>

lemma delete_route_unknown:
  assumes "i \<notin> fst ` set (custom (loadMCPConfig anthropic (overlay_file st)))"
    and "i \<notin> set object_prototype_keys"
  shows "delete_route anthropic st i =
           (Response 400 (Failure ''Cannot delete built-in MCP servers''), st)"
  using assms by (simp add: delete_route_def truthy_obj_get)

lemma delete_route_custom:
  assumes "i \<in> fst ` set (custom (loadMCPConfig anthropic (overlay_file st)))"
    and "writable st"
  shows "delete_route anthropic st i =
           (Response 200 (SuccessId i),
            st\<lparr>overlay_file :=
                 Json \<lparr>enabled = obj_delete (enabled (loadMCPConfig anthropic (overlay_file st))) i,
                       custom = obj_delete (custom (loadMCPConfig anthropic (overlay_file st))) i\<rparr>\<rparr>)"
  using assms by (simp add: delete_route_def truthy_obj_get saveMCPConfig_def Let_def)

lemma delete_route_inherited:
  assumes "i \<in> set object_prototype_keys"
    and "writable st"
  shows "delete_route anthropic st i =
           (Response 200 (SuccessId i),
            st\<lparr>overlay_file :=
                 Json \<lparr>enabled = obj_delete (enabled (loadMCPConfig anthropic (overlay_file st))) i,
                       custom = obj_delete (custom (loadMCPConfig anthropic (overlay_file st))) i\<rparr>\<rparr>)"
  using assms by (simp add: delete_route_def truthy_obj_get saveMCPConfig_def Let_def)

lemma delete_route_removes:
  assumes "delete_route anthropic st i = (Response 200 (SuccessId j), st')"
  shows "j = i \<and> (\<exists>config'. overlay_file st' = Json config'
           \<and> i \<notin> fst ` set (custom config') \<and> i \<notin> fst ` set (enabled config')
           \<and> (\<forall>k. k \<noteq> i \<longrightarrow>
                 map_of (custom config') k =
                   map_of (custom (loadMCPConfig anthropic (overlay_file st))) k
               \<and> map_of (enabled config') k =
                   map_of (enabled (loadMCPConfig anthropic (overlay_file st))) k))"
  using assms
  by (auto simp: delete_route_def saveMCPConfig_def Let_def keys_obj_delete map_of_obj_delete
      split: if_splits)

text \<open>
  Claim C4 says that Delete fails with status 400 exactly when the identifier is
  not a key of the \<open>custom\<close> map. The lemmas above show this for every identifier
  that is not the name of a property of \<^verbatim>\<open>Object.prototype\<close>. For those names the test
  \<^verbatim>\<open>!config.custom[id]\<close> reads the inherited property, and the route does not refuse:
  \<^verbatim>\<open>DELETE /api/mcp-servers/constructor\<close> on an overlay with no custom server writes
  the file and answers \<^verbatim>\<open>{success: true, id: "constructor"}\<close>.
\<close>

theorem C4_delete_constructor:
  "handleMCPServerRoutes None fetch
     \<lparr>overlay_file = Json \<lparr>enabled = [], custom = []\<rparr>, writable = True\<rparr>
     \<lparr>req_method = ''DELETE'', pathname = ''/api/mcp-servers/constructor'', json = body\<rparr> =
   (Response 200 (SuccessId ''constructor''),
    \<lparr>overlay_file = Json \<lparr>enabled = [], custom = []\<rparr>, writable = True\<rparr>)
   \<and> ''constructor'' \<notin> fst ` set (custom (loadMCPConfig None (Json \<lparr>enabled = [], custom = []\<rparr>)))"
  by (simp add: handleMCPServerRoutes_def match_id_def api_prefix_def delete_route_def loadMCPConfig_def
        obj_get_def object_prototype_keys_def obj_delete_def saveMCPConfig_def)

section \<open>Properties of Create\<close>



lemma type_stdio_not_empty: "type_stdio \<noteq> []"
  by (simp add: type_stdio_def)

lemma create_checked_cases:
  assumes "i \<notin> set object_prototype_keys"
  shows "create_checked anthropic st i t body =
     (if t = type_http \<and> falsy_str (b_url body)
      then (Response 400 (Failure ''HTTP servers require a URL''), st)
      else if t = type_stdio \<and> falsy_str (b_command body)
      then (Response 400 (Failure ''Stdio servers require a command''), st)
      else if \<not> id_format_ok i
      then (Response 400 (Failure ''Server ID must be lowercase alphanumeric with dashes''), st)
      else if i \<in> fst ` set (builtinServers anthropic)
              \<or> i \<in> fst ` set (custom (loadMCPConfig anthropic (overlay_file st)))
      then (Response 400 (Failure ''MCP server with this ID already exists''), st)
      else if writable st
      then (Response 200 (SuccessId i),
            st\<lparr>overlay_file :=
                 Json \<lparr>enabled = obj_set (enabled (loadMCPConfig anthropic (overlay_file st))) i True,
                       custom = obj_set (custom (loadMCPConfig anthropic (overlay_file st))) i
                                  (new_record t body)\<rparr>\<rparr>)
      else (Rejected, st))"
  using assms
  by (simp add: create_checked_def truthy_or_obj truthy_obj_get saveMCPConfig_def Let_def)

lemma create_route_rejects_iff:
  assumes "\<And>i. b_id body = Some i \<Longrightarrow> i \<notin> set object_prototype_keys"
  shows "(\<exists>m. create_route anthropic st body = (Response 400 (Failure m), st)) \<longleftrightarrow>
     (falsy_str (b_id body) \<or> falsy_str (b_type body)
      \<or> (b_type body = Some type_http \<and> falsy_str (b_url body))
      \<or> (b_type body = Some type_stdio \<and> falsy_str (b_command body))
      \<or> (\<exists>i. b_id body = Some i
             \<and> (\<not> id_format_ok i
                \<or> i \<in> fst ` set (builtinServers anthropic)
                \<or> i \<in> fst ` set (custom (loadMCPConfig anthropic (overlay_file st))))))"
proof (cases "b_id body")
  case None
  then show ?thesis by (simp add: create_route_def)
next
  case (Some i)
  note i = this
  show ?thesis
  proof (cases "b_type body")
    case None
    with i show ?thesis by (simp add: create_route_def)
  next
    case (Some t)
    show ?thesis
    proof (cases "i = [] \<or> t = []")
      case True
      with i Some show ?thesis by (auto simp: create_route_def)
    next
      case False
      have "create_route anthropic st body = create_checked anthropic st i t body"
        using i Some False by (simp add: create_route_def)
      with i Some False show ?thesis
        by (simp add: create_checked_cases [OF assms [OF i]])
    qed
  qed
qed

lemma create_route_accepts:
  assumes "b_id body = Some i" and "b_type body = Some t" and "t \<noteq> []"
    and "i \<notin> set object_prototype_keys"
    and "t = type_http \<longrightarrow> \<not> falsy_str (b_url body)"
    and "t = type_stdio \<longrightarrow> \<not> falsy_str (b_command body)"
    and "id_format_ok i"
    and "i \<notin> fst ` set (builtinServers anthropic)"
    and "i \<notin> fst ` set (custom (loadMCPConfig anthropic (overlay_file st)))"
    and "writable st"
  shows "\<exists>config'.
      create_route anthropic st body =
        (Response 200 (SuccessId i), st\<lparr>overlay_file := Json config'\<rparr>)
    \<and> obj_get (custom config') i = Val (new_record t body)
    \<and> obj_get (enabled config') i = Val True
    \<and> (\<forall>k. k \<noteq> i \<longrightarrow>
          obj_get (custom config') k =
            obj_get (custom (loadMCPConfig anthropic (overlay_file st))) k
        \<and> obj_get (enabled config') k =
            obj_get (enabled (loadMCPConfig anthropic (overlay_file st))) k)"
proof -
  from assms(7) have ne: "i \<noteq> []" and np: "i \<noteq> proto_key"
    using not_id_format_ok_proto_key by (auto simp: id_format_ok_def)
  define config' where
    "config' = \<lparr>enabled = obj_set (enabled (loadMCPConfig anthropic (overlay_file st))) i True,
                custom = obj_set (custom (loadMCPConfig anthropic (overlay_file st))) i
                           (new_record t body)\<rparr>"
  have "create_route anthropic st body = create_checked anthropic st i t body"
    using assms(1,2,3) ne by (simp add: create_route_def)
  then have run: "create_route anthropic st body =
      (Response 200 (SuccessId i), st\<lparr>overlay_file := Json config'\<rparr>)"
    using assms by (simp add: create_checked_cases config'_def)
  have "obj_get (custom config') k =
          (if k = i then Val (new_record t body)
           else obj_get (custom (loadMCPConfig anthropic (overlay_file st))) k)"
    and "obj_get (enabled config') k =
          (if k = i then Val True
           else obj_get (enabled (loadMCPConfig anthropic (overlay_file st))) k)" for k
    using np by (simp_all add: config'_def obj_get_obj_set)
  with run show ?thesis
    by (intro exI [of _ config']) simp
qed

lemma create_checked_inherited:
  assumes "i \<in> set object_prototype_keys" and "id_format_ok i"
    and "t = type_http \<longrightarrow> \<not> falsy_str (b_url body)"
    and "t = type_stdio \<longrightarrow> \<not> falsy_str (b_command body)"
  shows "create_checked anthropic st i t body =
           (Response 400 (Failure ''MCP server with this ID already exists''), st)"
  using assms by (simp add: create_checked_def truthy_or_obj truthy_obj_get)

text \<open>
  Claim C1 says that Create answers 400 and leaves the overlay alone exactly when
  \<^verbatim>\<open>id\<close> or \<^verbatim>\<open>type\<close> is missing (absent or empty), the field the type requires is
  missing, the identifier does not match \<^verbatim>\<open>[a-z0-9-]+\<close>, or the identifier is already
  one of the built-in or custom identifiers, and that every other request is
  stored, enabled and answered with \<^verbatim>\<open>{success: true, id}\<close>. The lemmas above show this
  for every identifier that is not the name of a property of \<^verbatim>\<open>Object.prototype\<close>.
  The name \<^verbatim>\<open>constructor\<close> matches the pattern, and the test
  \<^verbatim>\<open>builtinServers[id] || config.custom[id]\<close> reads the inherited property: a request to
  create the server \<^verbatim>\<open>constructor\<close> is refused as already existing although no built-in
  and no custom server has that identifier.
\<close>

theorem C1_create_constructor:
  "handleMCPServerRoutes None fetch
     \<lparr>overlay_file = Json \<lparr>enabled = [], custom = []\<rparr>, writable = True\<rparr>
     \<lparr>req_method = ''POST'', pathname = ''/api/mcp-servers'',
      json = \<lparr>b_id = Some ''constructor'', b_name = None, b_type = Some ''http'',
              b_url = Some ''https://example.org/mcp'', b_headers = None,
              b_command = None, b_args = None, b_env = None\<rparr>\<rparr> =
   (Response 400 (Failure ''MCP server with this ID already exists''),
    \<lparr>overlay_file = Json \<lparr>enabled = [], custom = []\<rparr>, writable = True\<rparr>)
   \<and> id_format_ok ''constructor''
   \<and> ''constructor'' \<notin> fst ` set (builtinServers None)
   \<and> ''constructor'' \<notin> fst ` set (custom (loadMCPConfig None (Json \<lparr>enabled = [], custom = []\<rparr>)))"
  by (simp add: handleMCPServerRoutes_def match_id_def api_prefix_def create_route_def create_checked_def
        type_http_def type_stdio_def id_format_ok_def loadMCPConfig_def builtinServers_def
        obj_get_def object_prototype_keys_def)








section \<open>Properties of the request router\<close>

lemma match_id_append:
  assumes "i \<noteq> []" and "CHR ''/'' \<notin> set i" and "suffix = [] \<or> hd suffix = CHR ''/''"
  shows "match_id suffix' (api_prefix @ i @ suffix) = (if suffix = suffix' then Some i else None)"
proof -
  have "takeWhile (\<lambda>c. c \<noteq> CHR ''/'') (i @ suffix) = i @ takeWhile (\<lambda>c. c \<noteq> CHR ''/'') suffix"
    using assms(2) by (intro takeWhile_append2) auto
  moreover have "takeWhile (\<lambda>c. c \<noteq> CHR ''/'') suffix = []"
    using assms(3) by (cases suffix) auto
  ultimately have tw: "takeWhile (\<lambda>c. c \<noteq> CHR ''/'') (i @ suffix) = i"
    by simp
  have len: "length api_prefix = 17" by (simp add: api_prefix_def)
  have "match_id suffix' (api_prefix @ i @ suffix) =
     (let rest = drop 17 (api_prefix @ i @ suffix);
          seg = takeWhile (\<lambda>c. c \<noteq> CHR ''/'') rest
      in if take 17 (api_prefix @ i @ suffix) = api_prefix \<and> seg \<noteq> [] \<and> drop (length seg) rest = suffix'
         then Some seg else None)"
    by (simp add: match_id_def api_prefix_def Let_def)
  also have "\<dots> = (if suffix = suffix' then Some i else None)"
    using assms(1) tw by (auto simp: len Let_def)
  finally show ?thesis .
qed

lemma handle_list:
  "handleMCPServerRoutes anthropic fetch st
     \<lparr>req_method = ''GET'', pathname = ''/api/mcp-servers'', json = body\<rparr> =
   (Response 200 (Servers (getAllServers anthropic (loadMCPConfig anthropic (overlay_file st)))),
    st)"
  by (simp add: handleMCPServerRoutes_def)

lemma handle_toggle:
  assumes "i \<noteq> []" and "CHR ''/'' \<notin> set i"
  shows "handleMCPServerRoutes anthropic fetch st
           \<lparr>req_method = ''POST'', pathname = api_prefix @ i @ ''/toggle'', json = body\<rparr> =
         toggle_route anthropic st i"
  using match_id_append [OF assms, of "''/toggle''" "''/toggle''"]
  by (simp add: handleMCPServerRoutes_def)

lemma handle_test:
  assumes "i \<noteq> []" and "CHR ''/'' \<notin> set i"
  shows "handleMCPServerRoutes anthropic fetch st
           \<lparr>req_method = ''POST'', pathname = api_prefix @ i @ ''/test'', json = body\<rparr> =
         test_route anthropic fetch st i"
  using match_id_append [OF assms, of "''/test''" "''/toggle''"]
    match_id_append [OF assms, of "''/test''" "''/test''"]
  by (simp add: handleMCPServerRoutes_def)

lemma handle_delete:
  assumes "i \<noteq> []" and "CHR ''/'' \<notin> set i"
  shows "handleMCPServerRoutes anthropic fetch st
           \<lparr>req_method = ''DELETE'', pathname = api_prefix @ i, json = body\<rparr> =
         delete_route anthropic st i"
  using match_id_append [OF assms, of "[]" "[]"]
  by (simp add: handleMCPServerRoutes_def)

lemma handle_create:
  "handleMCPServerRoutes anthropic fetch st
     \<lparr>req_method = ''POST'', pathname = ''/api/mcp-servers'', json = body\<rparr> =
   create_route anthropic st body"
  by (simp add: handleMCPServerRoutes_def match_id_def api_prefix_def)

lemma handle_other_method:
  assumes "m \<notin> {''GET'', ''POST'', ''DELETE''}"
  shows "handleMCPServerRoutes anthropic fetch st
           \<lparr>req_method = m, pathname = path, json = body\<rparr> = (NotHandled, st)"
  using assms by (auto simp: handleMCPServerRoutes_def)

end
